theory Spec2Isabelle
  imports Main "HOL-Library.Word"
begin

section \<open>FinalFormatter: request assembly on the server and in the client\<close>

text \<open>
  The repository holds the same pipeline three times: the Express handler
  \<^verbatim>\<open>app.post('/api/format')\<close> of \<^verbatim>\<open>server.js\<close>, a second copy of that handler
  that also serves the built frontend (it differs only in how the model client is
  called), and the React event handler \<^verbatim>\<open>handleFormat\<close>. Each takes formatting
  instructions and one document (pasted text or a file), builds the array
  \<^verbatim>\<open>parts\<close>, sends it to the model and checks the reply.

  The model service and the DOCX extractor (mammoth) are external. They are
  functions of an environment record, and every call to them is written to a log, so
  that "no collaborator was contacted" is a statement about the log.
\<close>

subsection \<open>Strings, bytes and the JavaScript operations the handlers use\<close>

text \<open>
  A JavaScript string is modelled as a \<^typ>\<open>string\<close>; the handlers only concatenate,
  compare, test for emptiness, take a prefix, split at a comma and trim. A field of
  \<^verbatim>\<open>req.body\<close> is a \<^typ>\<open>string option\<close>: \<^term>\<open>None\<close> is \<^verbatim>\<open>undefined\<close>
  (multipart form fields and the JSON bodies the frontend sends carry strings).
\<close>

type_synonym byte = "8 word"

text \<open>\<^verbatim>\<open>!x\<close> for such a field: \<^verbatim>\<open>undefined\<close> and \<^verbatim>\<open>""\<close> are falsy.\<close>

definition truthy :: "string option \<Rightarrow> bool" where
  "truthy v = (case v of None \<Rightarrow> False | Some s \<Rightarrow> s \<noteq> [])"

text \<open>A template literal \<^verbatim>\<open>`${x}`\<close>.\<close>

definition template :: "string option \<Rightarrow> string" where
  "template v = (case v of None \<Rightarrow> ''undefined'' | Some s \<Rightarrow> s)"

definition startsWith :: "string \<Rightarrow> string \<Rightarrow> bool" where
  "startsWith s p = (take (length p) s = p)"

text \<open>
  \<^verbatim>\<open>String.prototype.trim\<close> removes white space and line terminators at both ends;
  those with a code below 256 are TAB, LF, VT, FF, CR, SPACE and NBSP.
\<close>

definition is_space :: "char \<Rightarrow> bool" where
  "is_space ch = (ch \<in> set [CHR 0x09, CHR 0x0A, CHR 0x0B, CHR 0x0C, CHR 0x0D, CHR 0x20, CHR 0xA0])"

definition trim :: "string \<Rightarrow> string" where
  "trim s = rev (dropWhile is_space (rev (dropWhile is_space s)))"

text \<open>\<^verbatim>\<open>s.split(sep)\<close> for a separator of one character; \<^verbatim>\<open>"".split(",")\<close> is \<^verbatim>\<open>[""]\<close>.\<close>

fun js_split :: "char \<Rightarrow> string \<Rightarrow> string list" where
  "js_split sep [] = [[]]"
| "js_split sep (x # xs) =
     (if x = sep then [] # js_split sep xs
      else (case js_split sep xs of
              [] \<Rightarrow> [[x]]
            | y # ys \<Rightarrow> (x # y) # ys))"

text \<open>Indexing an array, \<^verbatim>\<open>xs[i]\<close>: \<^verbatim>\<open>undefined\<close> beyond the end.\<close>

definition at :: "'a list \<Rightarrow> nat \<Rightarrow> 'a option" where
  "at xs i = (if i < length xs then Some (xs ! i) else None)"

subsection \<open>Base64\<close>

text \<open>
  \<^verbatim>\<open>buffer.toString('base64')\<close> of Node and the payload of a browser's data URL are
  the base64 encoding of RFC 4648: three bytes become four characters of the
  alphabet below, and a last group of one or two bytes is padded with \<^verbatim>\<open>=\<close>.
\<close>

definition b64chars :: string where
  "b64chars = ''ABCDEFGHIJKLMNOPQRSTUVWXYZabcdefghijklmnopqrstuvwxyz0123456789+/''"

definition b64 :: "nat \<Rightarrow> char" where
  "b64 n = b64chars ! n"

fun toString_base64 :: "byte list \<Rightarrow> string" where
  "toString_base64 [] = []"
| "toString_base64 [a] =
     [b64 (unat a div 4), b64 (unat a mod 4 * 16), CHR ''='', CHR ''='']"
| "toString_base64 [a, b] =
     [b64 (unat a div 4), b64 (unat a mod 4 * 16 + unat b div 16),
      b64 (unat b mod 16 * 4), CHR ''='']"
| "toString_base64 (a # b # c # rest) =
     [b64 (unat a div 4), b64 (unat a mod 4 * 16 + unat b div 16),
      b64 (unat b mod 16 * 4 + unat c div 64), b64 (unat c mod 64)] @ toString_base64 rest"




subsection \<open>Data model\<close>

text \<open>
  An uploaded file: multer's \<^verbatim>\<open>req.file\<close> (\<^verbatim>\<open>mimetype\<close>, \<^verbatim>\<open>buffer\<close>) on the
  server, a browser \<^verbatim>\<open>File\<close> (\<^verbatim>\<open>type\<close> and its bytes) in the client.
\<close>

record uploaded_file =
  mimetype :: string
  buffer :: "byte list"

text \<open>
  One element of \<^verbatim>\<open>parts\<close>: \<^verbatim>\<open>{ text }\<close> or \<^verbatim>\<open>{ inlineData: { mimeType, data } }\<close>.
  The client takes \<^verbatim>\<open>data\<close> from an array index, which may be \<^verbatim>\<open>undefined\<close>.
\<close>

datatype part = TextPart string | InlinePart string "string option"

text \<open>The calls that leave the process, in the order they are made.\<close>

datatype call = ExtractRawText "byte list" | GenerateContent "part list"

text \<open>
  The environment of one request. \<^verbatim>\<open>mammoth.extractRawText\<close> resolves to a result
  with a \<^verbatim>\<open>value\<close> (\<^term>\<open>Inr\<close>) or rejects with an error message (\<^term>\<open>Inl\<close>);
  \<^verbatim>\<open>generateContent\<close> resolves to a response whose \<^verbatim>\<open>text\<close> is a string or
  \<^verbatim>\<open>undefined\<close>, or rejects. The model is also given the constant
  \<^verbatim>\<open>SYSTEM_PROMPT\<close>, which is not an element of \<^verbatim>\<open>parts\<close>. The two UTF-8 decoders
  are library functions of Node (\<^verbatim>\<open>buffer.toString('utf-8')\<close>) and of the browser
  (\<^verbatim>\<open>file.text()\<close>).
\<close>

record env =
  extractRawText :: "byte list \<Rightarrow> string + string"
  generateContent :: "part list \<Rightarrow> string + string option"
  buffer_toString_utf8 :: "byte list \<Rightarrow> string"
  file_text :: "byte list \<Rightarrow> string"

definition docx_mime :: string where
  "docx_mime = ''application/vnd.openxmlformats-officedocument.wordprocessingml.document''"

subsection \<open>The server: \<^verbatim>\<open>app.post('/api/format')\<close>\<close>

record request =
  body_content :: "string option"
  body_instructions :: "string option"
  req_file :: "uploaded_file option"

text \<open>\<^verbatim>\<open>res.status(n).json({ ... })\<close>: the status and the fields of the body.\<close>

record response =
  status :: nat
  json :: "(string \<times> string) list"

text \<open>
  The end of the \<^verbatim>\<open>try\<close> block: the model is called with \<^verbatim>\<open>parts\<close>; if
  \<^verbatim>\<open>!formattedText\<close>, that is for a missing or an empty text, an error is thrown;
  anything else is sent back as it is. \<^term>\<open>Inl\<close> is a thrown \<^verbatim>\<open>Error\<close> with its
  message. The second copy of the handler passes \<^verbatim>\<open>parts\<close> as the one user message
  and reads the reply with \<^verbatim>\<open>result.response.text()\<close>; its check and its answer are
  the same.
\<close>

definition call_gemini :: "env \<Rightarrow> part list \<Rightarrow> call list \<Rightarrow> (string + response) \<times> call list" where
  "call_gemini e parts log =
     (case generateContent e parts of
        Inl message \<Rightarrow> (Inl message, log @ [GenerateContent parts])
      | Inr formattedText \<Rightarrow>
          (case formattedText of
             None \<Rightarrow> (Inl ''AI returned empty response.'', log @ [GenerateContent parts])
           | Some t \<Rightarrow>
               if t = [] then
                 (Inl ''AI returned empty response.'', log @ [GenerateContent parts])
               else
                 (Inr \<lparr>status = 200, json = [(''formattedContent'', t)]\<rparr>,
                  log @ [GenerateContent parts])))"

text \<open>The \<^verbatim>\<open>try\<close> block, in the order of the source.\<close>

definition api_format_try :: "env \<Rightarrow> request \<Rightarrow> (string + response) \<times> call list" where
  "api_format_try e req =
     (if \<not> truthy (body_instructions req) then
        (Inr \<lparr>status = 400, json = [(''error'', ''Missing formatting instructions.'')]\<rparr>, [])
      else
        let parts = [TextPart (''INSTRUCTIONS:\<newline>'' @ template (body_instructions req))] in
        (case req_file req of
           Some file \<Rightarrow>
             let mimeType = mimetype file in
             if mimeType = ''application/pdf'' \<or> startsWith mimeType ''image/'' then
               call_gemini e
                 (parts @ [InlinePart mimeType (Some (toString_base64 (buffer file)))]) []
             else if mimeType = docx_mime then
               (case extractRawText e (buffer file) of
                  Inl message \<Rightarrow> (Inl message, [ExtractRawText (buffer file)])
                | Inr v \<Rightarrow>
                    call_gemini e (parts @ [TextPart (''DOCUMENT CONTENT:\<newline>'' @ v)])
                      [ExtractRawText (buffer file)])
             else if mimeType = ''text/plain'' then
               call_gemini e
                 (parts @ [TextPart (''DOCUMENT CONTENT:\<newline>''
                                      @ buffer_toString_utf8 e (buffer file))]) []
             else
               (Inr \<lparr>status = 400, json = [(''error'',
                  ''Unsupported file type. Please upload PDF, DOCX, Image, or Text.'')]\<rparr>, [])
         | None \<Rightarrow>
             if truthy (body_content req) then
               call_gemini e
                 (parts @ [TextPart (''DOCUMENT CONTENT:\<newline>'' @ template (body_content req))]) []
             else
               (Inr \<lparr>status = 400, json = [(''error'',
                  ''Please provide either a file or document text.'')]\<rparr>, [])))"

text \<open>The handler: whatever is thrown inside \<^verbatim>\<open>try\<close> is answered with status 500.\<close>

definition api_format :: "env \<Rightarrow> request \<Rightarrow> response \<times> call list" where
  "api_format e req =
     (case api_format_try e req of
        (Inr res, log) \<Rightarrow> (res, log)
      | (Inl message, log) \<Rightarrow>
          (\<lparr>status = 500, json = [(''error'', ''Internal Processing Error''),
                                  (''details'', message)]\<rparr>, log))"

subsection \<open>The client: \<^verbatim>\<open>fileToBase64\<close> and \<^verbatim>\<open>handleFormat\<close>\<close>

text \<open>
  \<^verbatim>\<open>FileReader.readAsDataURL\<close> is the browser's: its result is \<^verbatim>\<open>data:\<close>, the
  file's type, \<^verbatim>\<open>;base64,\<close> and the base64 encoding of the bytes. A failing read
  (\<^verbatim>\<open>reader.onerror\<close>) is not modelled.
\<close>

definition readAsDataURL :: "uploaded_file \<Rightarrow> string" where
  "readAsDataURL file = ''data:'' @ mimetype file @ '';base64,'' @ toString_base64 (buffer file)"

definition fileToBase64 :: "uploaded_file \<Rightarrow> string option" where
  "fileToBase64 file = at (js_split (CHR '','') (readAsDataURL file)) 1"

text \<open>The component's state, as far as \<^verbatim>\<open>handleFormat\<close> reads or writes it.\<close>

record app_state =
  textInput :: string
  instructions :: string
  "file" :: "uploaded_file option"
  formattedContent :: string
  loading :: bool
  error :: "string option"

text \<open>
  The \<^verbatim>\<open>try\<close> block of \<^verbatim>\<open>handleFormat\<close>: \<^term>\<open>Inr\<close> is the text given to
  \<^verbatim>\<open>setFormattedContent\<close>, \<^term>\<open>Inl\<close> a thrown error's message. Building the
  API client from the configured key, the first statement of the block, is left
  out.
\<close>

definition ask_gemini :: "env \<Rightarrow> part list \<Rightarrow> call list \<Rightarrow> (string + string) \<times> call list" where
  "ask_gemini e parts log =
     (case generateContent e parts of
        Inl message \<Rightarrow> (Inl message, log @ [GenerateContent parts])
      | Inr text \<Rightarrow>
          (case text of
             None \<Rightarrow> (Inl ''No response generated.'', log @ [GenerateContent parts])
           | Some t \<Rightarrow>
               if t \<noteq> [] then (Inr t, log @ [GenerateContent parts])
               else (Inl ''No response generated.'', log @ [GenerateContent parts])))"

definition handleFormat_try :: "env \<Rightarrow> app_state \<Rightarrow> (string + string) \<times> call list" where
  "handleFormat_try e st =
     (let parts = [TextPart (''INSTRUCTIONS:\<newline>'' @ instructions st)] in
      case file st of
        Some f \<Rightarrow>
          if mimetype f = ''application/pdf'' \<or> startsWith (mimetype f) ''image/'' then
            let base64Data = fileToBase64 f in
            ask_gemini e (parts @ [InlinePart (mimetype f) base64Data]) []
          else if mimetype f = docx_mime then
            (case extractRawText e (buffer f) of
               Inl message \<Rightarrow> (Inl message, [ExtractRawText (buffer f)])
             | Inr v \<Rightarrow>
                 ask_gemini e (parts @ [TextPart (''DOCUMENT CONTENT:\<newline>'' @ v)])
                   [ExtractRawText (buffer f)])
          else if mimetype f = ''text/plain'' then
            ask_gemini e
              (parts @ [TextPart (''DOCUMENT CONTENT:\<newline>'' @ file_text e (buffer f))]) []
          else
            (Inl ''Unsupported file type. Use PDF, DOCX, Image, or Text.'', [])
      | None \<Rightarrow>
          ask_gemini e (parts @ [TextPart (''DOCUMENT CONTENT:\<newline>'' @ textInput st)]) [])"

text \<open>
  \<^verbatim>\<open>handleFormat\<close>: the two guards return before anything else is touched; then
  the state is reset, the \<^verbatim>\<open>try\<close> block runs, \<^verbatim>\<open>catch\<close> shows the message of what
  was thrown and \<^verbatim>\<open>finally\<close> clears \<^verbatim>\<open>loading\<close>.
\<close>

definition handleFormat :: "env \<Rightarrow> app_state \<Rightarrow> app_state \<times> call list" where
  "handleFormat e st =
     (if trim (textInput st) = [] \<and> file st = None then
        (st\<lparr>error := Some ''Please provide content (paste text or upload file).''\<rparr>, [])
      else if trim (instructions st) = [] then
        (st\<lparr>error := Some ''Please add formatting instructions.''\<rparr>, [])
      else
        let st1 = st\<lparr>loading := True, error := None, formattedContent := []\<rparr> in
        (case handleFormat_try e st of
           (Inr text, log) \<Rightarrow> (st1\<lparr>formattedContent := text, loading := False\<rparr>, log)
         | (Inl message, log) \<Rightarrow>
             (st1\<lparr>error := Some (if message = [] then ''Failed to format document.''
                                  else message),
                  loading := False\<rparr>, log)))"

subsection \<open>The user interface's handlers for the two inputs\<close>

text \<open>
  \<^verbatim>\<open>handleFileChange\<close> with a chosen file, \<^verbatim>\<open>clearFile\<close>, and the text area's
  \<^verbatim>\<open>onChange\<close>: choosing a file clears the pasted text, typing clears the file.
\<close>

definition handleFileChange :: "uploaded_file \<Rightarrow> app_state \<Rightarrow> app_state" where
  "handleFileChange f st = st\<lparr>file := Some f, textInput := []\<rparr>"

definition clearFile :: "app_state \<Rightarrow> app_state" where
  "clearFile st = st\<lparr>file := None\<rparr>"

definition onTextChange :: "string \<Rightarrow> app_state \<Rightarrow> app_state" where
  "onTextChange v st = st\<lparr>textInput := v, file := None\<rparr>"

subsection \<open>Vocabulary of the specification\<close>

text \<open>
  The specification names strategies and error kinds; the code has neither a
  classifier nor error classes, only the chain of comparisons on the MIME string and
  the responses and messages below.
\<close>

definition inline_binary :: "string \<Rightarrow> bool" where
  "inline_binary m = (m = ''application/pdf'' \<or> startsWith m ''image/'')"

definition recognized :: "string \<Rightarrow> bool" where
  "recognized m = (inline_binary m \<or> m = docx_mime \<or> m = ''text/plain'')"

text \<open>A content part: inline data, or text under the document label.\<close>

fun content_part :: "part \<Rightarrow> bool" where
  "content_part (InlinePart m d) = True"
| "content_part (TextPart t) = startsWith t ''DOCUMENT CONTENT:\<newline>''"

text \<open>The error kinds as the server answers them.\<close>

definition MissingInstructionsError :: response where
  "MissingInstructionsError =
     \<lparr>status = 400, json = [(''error'', ''Missing formatting instructions.'')]\<rparr>"

definition UnsupportedMediaTypeError :: response where
  "UnsupportedMediaTypeError =
     \<lparr>status = 400, json = [(''error'',
        ''Unsupported file type. Please upload PDF, DOCX, Image, or Text.'')]\<rparr>"

definition MissingContentError :: response where
  "MissingContentError =
     \<lparr>status = 400, json = [(''error'', ''Please provide either a file or document text.'')]\<rparr>"

definition InternalProcessingError :: "string \<Rightarrow> response" where
  "InternalProcessingError details =
     \<lparr>status = 500, json = [(''error'', ''Internal Processing Error''), (''details'', details)]\<rparr>"

definition EmptyModelResponseError :: response where
  "EmptyModelResponseError = InternalProcessingError ''AI returned empty response.''"

definition FormattedResult :: "string \<Rightarrow> response" where
  "FormattedResult t = \<lparr>status = 200, json = [(''formattedContent'', t)]\<rparr>"

text \<open>The same kinds as the client shows them, in the \<^verbatim>\<open>error\<close> field of its state.\<close>

definition client_MissingContentError :: string where
  "client_MissingContentError = ''Please provide content (paste text or upload file).''"

definition client_MissingInstructionsError :: string where
  "client_MissingInstructionsError = ''Please add formatting instructions.''"

definition client_UnsupportedMediaTypeError :: string where
  "client_UnsupportedMediaTypeError = ''Unsupported file type. Use PDF, DOCX, Image, or Text.''"

definition client_EmptyModelResponseError :: string where
  "client_EmptyModelResponseError = ''No response generated.''"

text \<open>The state after a failed and after a successful run of the \<^verbatim>\<open>try\<close> block.\<close>

definition client_failed :: "app_state \<Rightarrow> string \<Rightarrow> app_state" where
  "client_failed st message =
     st\<lparr>loading := False, error := Some message, formattedContent := []\<rparr>"

definition client_formatted :: "app_state \<Rightarrow> string \<Rightarrow> app_state" where
  "client_formatted st t = st\<lparr>loading := False, error := None, formattedContent := t\<rparr>"

text \<open>The model requests of a log: the \<^verbatim>\<open>parts\<close> of each call of the model.\<close>

fun model_requests :: "call list \<Rightarrow> part list list" where
  "model_requests [] = []"
| "model_requests (GenerateContent ps # cs) = ps # model_requests cs"
| "model_requests (ExtractRawText b # cs) = model_requests cs"

text \<open>
  The input of a client state, posted to the server instead: the same pasted text,
  the same instructions, the same file.
\<close>

definition as_request :: "app_state \<Rightarrow> request" where
  "as_request st =
     \<lparr>body_content = Some (textInput st), body_instructions = Some (instructions st),
      req_file = file st\<rparr>"

text \<open>
  A request and a client state carry the same input when they hold the same file,
  the same instructions and the same pasted text; a field the request leaves out
  stands for the client's empty string.
\<close>

definition same_input :: "request \<Rightarrow> app_state \<Rightarrow> bool" where
  "same_input req st =
     (req_file req = file st
      \<and> (case body_instructions req of None \<Rightarrow> instructions st = [] | Some i \<Rightarrow> i = instructions st)
      \<and> (case body_content req of None \<Rightarrow> textInput st = [] | Some t \<Rightarrow> t = textInput st))"

text \<open>A string that is not empty and holds nothing but white space.\<close>

definition only_spaces :: "string \<Rightarrow> bool" where
  "only_spaces s = (s \<noteq> [] \<and> list_all is_space s)"

text \<open>
  The inputs that both environments read alike: pasted text that is not white
  space only; for a PDF or an image, a type without a comma (the client cuts the
  data URL at commas); for a plain-text file, bytes that the two decoders read the
  same.
\<close>

definition same_reading :: "env \<Rightarrow> app_state \<Rightarrow> bool" where
  "same_reading e st =
     (case file st of
        None \<Rightarrow> \<not> only_spaces (textInput st)
      | Some f \<Rightarrow>
          (inline_binary (mimetype f) \<longrightarrow> CHR '','' \<notin> set (mimetype f))
          \<and> (mimetype f = ''text/plain'' \<longrightarrow>
               file_text e (buffer f) = buffer_toString_utf8 e (buffer f)))"

text \<open>
  Stub collaborators for concrete runs: the extractor finds no text, the model
  answers \<^verbatim>\<open>HELLO WORLD\<close>, and both decoders read bytes as Latin-1 characters.
\<close>

definition latin1 :: "byte list \<Rightarrow> string" where
  "latin1 bs = map (\<lambda>b. char_of (unat b)) bs"

definition stub :: env where
  "stub = \<lparr>extractRawText = (\<lambda>b. Inr []),
           generateContent = (\<lambda>ps. Inr (Some ''HELLO WORLD'')),
           buffer_toString_utf8 = latin1, file_text = latin1\<rparr>"

text \<open>An idle client state with the given inputs.\<close>

definition idle :: "string \<Rightarrow> string \<Rightarrow> uploaded_file option \<Rightarrow> app_state" where
  "idle t i f =
     \<lparr>textInput = t, instructions = i, file = f, formattedContent = [], loading = False,
      error = None\<rparr>"

text \<open>
  Concrete inputs: the pasted text and the instructions of the specification's
  scenario A, and small files of an image, a DOCX, a plain-text, a PDF and a ZIP
  type, and one whose type holds a comma.
\<close>

definition pasted_request :: "string option \<Rightarrow> string option \<Rightarrow> request" where
  "pasted_request i t = \<lparr>body_content = t, body_instructions = i, req_file = None\<rparr>"

definition upload_request :: "string option \<Rightarrow> uploaded_file \<Rightarrow> request" where
  "upload_request i f = \<lparr>body_content = None, body_instructions = i, req_file = Some f\<rparr>"

definition png_file :: uploaded_file where
  "png_file = \<lparr>mimetype = ''image/png'', buffer = [0x89, 0x50, 0x4E, 0x47]\<rparr>"

definition docx_file :: uploaded_file where
  "docx_file = \<lparr>mimetype = docx_mime, buffer = [0x50, 0x4B, 0x03, 0x04]\<rparr>"

definition txt_file :: uploaded_file where
  "txt_file = \<lparr>mimetype = ''text/plain'', buffer = [0x68, 0x69]\<rparr>"



definition zip_file :: uploaded_file where
  "zip_file = \<lparr>mimetype = ''application/zip'', buffer = [0x50, 0x4B, 0x03, 0x04]\<rparr>"

section \<open>Base64 is decoded to the bytes that were encoded\<close>



lemma length_b64chars: "length b64chars = 64"
  by (simp add: b64chars_def)


lemma b64_in_alphabet: "n < 64 \<Longrightarrow> b64 n \<in> set b64chars"
  by (simp add: b64_def length_b64chars)


lemma comma_not_in_alphabet: "CHR '','' \<notin> set b64chars"
  by (simp add: b64chars_def)

lemma b64_not_comma: "n < 64 \<Longrightarrow> CHR '','' \<noteq> b64 n"
  using b64_in_alphabet comma_not_in_alphabet by metis

text \<open>A byte is below 256, so each of its groups of six bits is below 64.\<close>

lemma unat_byte_lt: "unat (a :: byte) < 256"
  using unsigned_less [of a, where ?'a = nat] by simp

lemma sextet1: "unat (a :: byte) div 4 < 64"
  using unat_byte_lt [of a] by simp

lemma sextet1_low: "unat (c :: byte) mod 64 < 64"
  by simp

lemma sextet2: "unat (a :: byte) mod 4 * 16 + unat (b :: byte) div 16 < 64"
proof -
  have "unat a mod 4 \<le> 3" by simp
  moreover have "unat b div 16 < 16" using unat_byte_lt [of b] by simp
  ultimately show ?thesis by linarith
qed

lemma sextet3: "unat (b :: byte) mod 16 * 4 + unat (c :: byte) div 64 < 64"
proof -
  have "unat b mod 16 \<le> 15" by simp
  moreover have "unat c div 64 < 4" using unat_byte_lt [of c] by simp
  ultimately show ?thesis by linarith
qed

lemma sextet2_pad: "unat (a :: byte) mod 4 * 16 < 64"
proof -
  have "unat a mod 4 \<le> 3" by simp
  then show ?thesis by linarith
qed

lemma sextet3_pad: "unat (b :: byte) mod 16 * 4 < 64"
proof -
  have "unat b mod 16 \<le> 15" by simp
  then show ?thesis by linarith
qed
















subsection \<open>Cutting the data URL at its comma\<close>

lemma base64_no_comma: "CHR '','' \<notin> set (toString_base64 bs)"
  by (induction bs rule: toString_base64.induct)
     (simp_all add: b64_not_comma sextet1 sextet1_low sextet2 sextet3 sextet2_pad sextet3_pad)

lemma js_split_no_sep: "sep \<notin> set s \<Longrightarrow> js_split sep s = [s]"
  by (induction s) auto

lemma js_split_at_first: "sep \<notin> set p \<Longrightarrow> js_split sep (p @ sep # s) = p # js_split sep s"
  by (induction p) auto

lemma fileToBase64_no_comma:
  assumes "CHR '','' \<notin> set (mimetype f)"
  shows "fileToBase64 f = Some (toString_base64 (buffer f))"
proof -
  let ?p = "''data:'' @ mimetype f @ '';base64''"
  have p: "CHR '','' \<notin> set ?p" using assms by simp
  have "readAsDataURL f = ?p @ CHR '','' # toString_base64 (buffer f)"
    by (simp add: readAsDataURL_def)
  then have "js_split (CHR '','') (readAsDataURL f) = [?p, toString_base64 (buffer f)]"
    using js_split_at_first [OF p] js_split_no_sep [OF base64_no_comma] by simp
  then show ?thesis by (simp add: fileToBase64_def at_def)
qed

subsection \<open>Trimming to nothing\<close>

lemma all_dropWhile: "(\<forall>x \<in> set (dropWhile P s). P x) \<longleftrightarrow> (\<forall>x \<in> set s. P x)"
  by (induction s) auto

lemma trim_Nil_iff: "trim s = [] \<longleftrightarrow> list_all is_space s"
proof -
  have "trim s = [] \<longleftrightarrow> (\<forall>x \<in> set (dropWhile is_space s). is_space x)"
    by (simp add: trim_def dropWhile_eq_Nil_conv)
  then show ?thesis
    by (simp only: all_dropWhile list_all_iff)
qed

lemma not_only_spaces: "\<not> only_spaces s \<Longrightarrow> (trim s = []) = (s = [])"
  by (auto simp: only_spaces_def trim_Nil_iff)

section \<open>What the handlers log and answer\<close>

lemma truthy_Some: "truthy v \<Longrightarrow> \<exists>s. v = Some s \<and> s \<noteq> [] \<and> template v = s"
  by (cases v) (simp_all add: truthy_def template_def)

lemma call_gemini_pair:
  "call_gemini e ps log =
     (case generateContent e ps of
        Inl message \<Rightarrow> Inl message
      | Inr r \<Rightarrow> if truthy r then Inr (FormattedResult (template r))
                 else Inl ''AI returned empty response.'', log @ [GenerateContent ps])"
  by (simp add: call_gemini_def FormattedResult_def truthy_def template_def
      split: sum.splits option.splits)

lemma snd_call_gemini: "snd (call_gemini e ps log) = log @ [GenerateContent ps]"
  by (simp add: call_gemini_pair)

lemma ask_gemini_pair:
  "ask_gemini e ps log =
     (case generateContent e ps of
        Inl message \<Rightarrow> Inl message
      | Inr r \<Rightarrow> if truthy r then Inr (template r) else Inl ''No response generated.'',
      log @ [GenerateContent ps])"
  by (simp add: ask_gemini_def truthy_def template_def split: sum.splits option.splits)

lemma snd_ask_gemini: "snd (ask_gemini e ps log) = log @ [GenerateContent ps]"
  by (simp add: ask_gemini_pair)

lemma snd_api_format: "snd (api_format e req) = snd (api_format_try e req)"
  by (simp add: api_format_def split: prod.splits sum.splits)

lemma fst_api_format:
  "fst (api_format e req) =
     (case fst (api_format_try e req) of
        Inr res \<Rightarrow> res
      | Inl message \<Rightarrow> InternalProcessingError message)"
  by (simp add: api_format_def InternalProcessingError_def split: prod.splits sum.splits)

text \<open>The log of the server, branch by branch.\<close>

lemma server_log:
  "snd (api_format_try e req) =
     (if \<not> truthy (body_instructions req) then []
      else case req_file req of
        Some f \<Rightarrow>
          if inline_binary (mimetype f) then
            [GenerateContent [TextPart (''INSTRUCTIONS:\<newline>'' @ template (body_instructions req)),
               InlinePart (mimetype f) (Some (toString_base64 (buffer f)))]]
          else if mimetype f = docx_mime then
            (case extractRawText e (buffer f) of
               Inl message \<Rightarrow> [ExtractRawText (buffer f)]
             | Inr v \<Rightarrow> [ExtractRawText (buffer f),
                 GenerateContent [TextPart (''INSTRUCTIONS:\<newline>'' @ template (body_instructions req)),
                   TextPart (''DOCUMENT CONTENT:\<newline>'' @ v)]])
          else if mimetype f = ''text/plain'' then
            [GenerateContent [TextPart (''INSTRUCTIONS:\<newline>'' @ template (body_instructions req)),
               TextPart (''DOCUMENT CONTENT:\<newline>'' @ buffer_toString_utf8 e (buffer f))]]
          else []
      | None \<Rightarrow>
          if truthy (body_content req) then
            [GenerateContent [TextPart (''INSTRUCTIONS:\<newline>'' @ template (body_instructions req)),
               TextPart (''DOCUMENT CONTENT:\<newline>'' @ template (body_content req))]]
          else [])"
  by (simp add: api_format_try_def inline_binary_def snd_call_gemini Let_def
      split: option.splits sum.splits)

text \<open>Whenever the server has called the model, its answer is decided by the reply.\<close>

lemma server_outcome:
  assumes "GenerateContent parts \<in> set (snd (api_format_try e req))"
  shows "fst (api_format_try e req) =
     (case generateContent e parts of
        Inl message \<Rightarrow> Inl message
      | Inr r \<Rightarrow> if truthy r then Inr (FormattedResult (template r))
                 else Inl ''AI returned empty response.'')"
proof (cases "truthy (body_instructions req)")
  case False
  with assms show ?thesis by (simp add: server_log)
next
  case True
  show ?thesis
  proof (cases "req_file req")
    case None
    with True assms show ?thesis
      by (cases "truthy (body_content req)")
         (simp_all add: api_format_try_def Let_def call_gemini_pair)
  next
    case (Some f)
    consider (inline) "inline_binary (mimetype f)"
      | (docx) "\<not> inline_binary (mimetype f)" "mimetype f = docx_mime"
      | (plain) "\<not> inline_binary (mimetype f)" "mimetype f \<noteq> docx_mime"
          "mimetype f = ''text/plain''"
      | (other) "\<not> inline_binary (mimetype f)" "mimetype f \<noteq> docx_mime"
          "mimetype f \<noteq> ''text/plain''"
      by blast
    then show ?thesis
    proof cases
      case inline
      with True Some assms show ?thesis
        by (simp add: api_format_try_def Let_def call_gemini_pair inline_binary_def)
    next
      case docx
      with True Some assms show ?thesis
        by (cases "extractRawText e (buffer f)")
           (simp_all add: api_format_try_def Let_def call_gemini_pair inline_binary_def)
    next
      case plain
      with True Some assms show ?thesis
        by (simp add: api_format_try_def Let_def call_gemini_pair inline_binary_def)
    next
      case other
      with True Some assms show ?thesis by (simp add: server_log)
    qed
  qed
qed

text \<open>The same for the client.\<close>

lemma snd_handleFormat:
  "snd (handleFormat e st) =
     (if trim (textInput st) = [] \<and> file st = None then []
      else if trim (instructions st) = [] then []
      else snd (handleFormat_try e st))"
  by (simp add: handleFormat_def Let_def split: prod.splits sum.splits)

lemma fst_handleFormat:
  "fst (handleFormat e st) =
     (if trim (textInput st) = [] \<and> file st = None then
        st\<lparr>error := Some client_MissingContentError\<rparr>
      else if trim (instructions st) = [] then
        st\<lparr>error := Some client_MissingInstructionsError\<rparr>
      else case fst (handleFormat_try e st) of
        Inr t \<Rightarrow> client_formatted st t
      | Inl message \<Rightarrow>
          client_failed st (if message = [] then ''Failed to format document.'' else message))"
  by (simp add: handleFormat_def Let_def client_MissingContentError_def
      client_MissingInstructionsError_def client_formatted_def client_failed_def
      split: prod.splits sum.splits)

lemma client_try_log:
  "snd (handleFormat_try e st) =
     (case file st of
        Some f \<Rightarrow>
          if inline_binary (mimetype f) then
            [GenerateContent [TextPart (''INSTRUCTIONS:\<newline>'' @ instructions st),
               InlinePart (mimetype f) (fileToBase64 f)]]
          else if mimetype f = docx_mime then
            (case extractRawText e (buffer f) of
               Inl message \<Rightarrow> [ExtractRawText (buffer f)]
             | Inr v \<Rightarrow> [ExtractRawText (buffer f),
                 GenerateContent [TextPart (''INSTRUCTIONS:\<newline>'' @ instructions st),
                   TextPart (''DOCUMENT CONTENT:\<newline>'' @ v)]])
          else if mimetype f = ''text/plain'' then
            [GenerateContent [TextPart (''INSTRUCTIONS:\<newline>'' @ instructions st),
               TextPart (''DOCUMENT CONTENT:\<newline>'' @ file_text e (buffer f))]]
          else []
      | None \<Rightarrow>
          [GenerateContent [TextPart (''INSTRUCTIONS:\<newline>'' @ instructions st),
             TextPart (''DOCUMENT CONTENT:\<newline>'' @ textInput st)]])"
  by (simp add: handleFormat_try_def inline_binary_def snd_ask_gemini Let_def
      split: option.splits sum.splits)

lemma client_try_outcome:
  assumes "GenerateContent parts \<in> set (snd (handleFormat_try e st))"
  shows "fst (handleFormat_try e st) =
     (case generateContent e parts of
        Inl message \<Rightarrow> Inl message
      | Inr r \<Rightarrow> if truthy r then Inr (template r) else Inl ''No response generated.'')"
proof (cases "file st")
  case None
  with assms show ?thesis
    by (simp add: handleFormat_try_def Let_def ask_gemini_pair)
next
  case (Some f)
  consider (inline) "inline_binary (mimetype f)"
    | (docx) "\<not> inline_binary (mimetype f)" "mimetype f = docx_mime"
    | (plain) "\<not> inline_binary (mimetype f)" "mimetype f \<noteq> docx_mime"
        "mimetype f = ''text/plain''"
    | (other) "\<not> inline_binary (mimetype f)" "mimetype f \<noteq> docx_mime"
        "mimetype f \<noteq> ''text/plain''"
    by blast
  then show ?thesis
  proof cases
    case inline
    with Some assms show ?thesis
      by (simp add: handleFormat_try_def Let_def ask_gemini_pair inline_binary_def)
  next
    case docx
    with Some assms show ?thesis
      by (cases "extractRawText e (buffer f)")
         (simp_all add: handleFormat_try_def Let_def ask_gemini_pair inline_binary_def)
  next
    case plain
    with Some assms show ?thesis
      by (simp add: handleFormat_try_def Let_def ask_gemini_pair inline_binary_def)
  next
    case other
    with Some assms show ?thesis by (simp add: client_try_log)
  qed
qed

subsection \<open>The guards\<close>

lemma not_recognized:
  "\<not> recognized m \<Longrightarrow>
     m \<noteq> ''application/pdf'' \<and> \<not> startsWith m ''image/'' \<and> m \<noteq> docx_mime \<and> m \<noteq> ''text/plain''"
  by (simp add: recognized_def inline_binary_def)

lemma server_missing_instructions:
  assumes "\<not> truthy (body_instructions req)"
  shows "api_format e req = (MissingInstructionsError, [])"
  using assms by (simp add: api_format_def api_format_try_def MissingInstructionsError_def)

lemma server_unsupported:
  assumes "truthy (body_instructions req)" "req_file req = Some f" "\<not> recognized (mimetype f)"
  shows "api_format e req = (UnsupportedMediaTypeError, [])"
  using assms(1,2) not_recognized [OF assms(3)]
  by (simp add: api_format_def api_format_try_def UnsupportedMediaTypeError_def)

lemma client_missing_instructions:
  assumes "trim (instructions st) = []" "file st \<noteq> None \<or> trim (textInput st) \<noteq> []"
  shows "handleFormat e st = (st\<lparr>error := Some client_MissingInstructionsError\<rparr>, [])"
  using assms by (auto simp: handleFormat_def client_MissingInstructionsError_def)

lemma client_unsupported:
  assumes "trim (instructions st) \<noteq> []" "file st = Some f" "\<not> recognized (mimetype f)"
  shows "handleFormat e st = (client_failed st client_UnsupportedMediaTypeError, [])"
  using assms(1,2) not_recognized [OF assms(3)]
  by (simp add: handleFormat_def handleFormat_try_def client_failed_def
      client_UnsupportedMediaTypeError_def)

subsection \<open>Concrete runs\<close>

lemmas run_defs = api_format_def api_format_try_def call_gemini_def handleFormat_def
  handleFormat_try_def ask_gemini_def stub_def truthy_def template_def startsWith_def
  docx_mime_def pasted_request_def upload_request_def png_file_def docx_file_def txt_file_def
  zip_file_def idle_def Let_def

lemma png_type: "mimetype png_file = ''image/png''"
  by (simp add: png_file_def)

lemma png_base64: "toString_base64 (buffer png_file) = ''iVBORw==''"
  by (simp add: png_file_def b64_def b64chars_def)

lemma png_dataURL: "fileToBase64 png_file = Some ''iVBORw==''"
  by (simp add: fileToBase64_def readAsDataURL_def at_def png_file_def b64_def b64chars_def)

lemma scenario_A_server:
  "GenerateContent [TextPart ''INSTRUCTIONS:\<newline>make it uppercase'',
                    TextPart ''DOCUMENT CONTENT:\<newline>hello world'']
     \<in> set (snd (api_format stub (pasted_request (Some ''make it uppercase'') (Some ''hello world''))))"
  by (simp add: run_defs)

lemma scenario_A_client:
  "GenerateContent [TextPart ''INSTRUCTIONS:\<newline>make it uppercase'',
                    TextPart ''DOCUMENT CONTENT:\<newline>hello world'']
     \<in> set (snd (handleFormat stub (idle ''hello world'' ''make it uppercase'' None)))"
  by (simp add: run_defs trim_def is_space_def)

section \<open>The claims\<close>

text \<open>
  Claim C1. Every request that gets as far as the model is sent with exactly two
  parts: first the text part \<^verbatim>\<open>INSTRUCTIONS:\<close>, a line feed and the instructions,
  then one content part (inline data, or text under the document label), whatever
  the kind of document. This holds of the server's handler and of the client's.
\<close>

theorem payload_is_instructions_then_one_content_part:
  "(GenerateContent parts \<in> set (snd (api_format e req)) \<longrightarrow>
      (\<exists>i p. body_instructions req = Some i
         \<and> parts = [TextPart (''INSTRUCTIONS:\<newline>'' @ i), p]
         \<and> content_part p \<and> \<not> content_part (TextPart (''INSTRUCTIONS:\<newline>'' @ i))))
   \<and> (GenerateContent parts' \<in> set (snd (handleFormat e st)) \<longrightarrow>
      (\<exists>p. parts' = [TextPart (''INSTRUCTIONS:\<newline>'' @ instructions st), p]
         \<and> content_part p
         \<and> \<not> content_part (TextPart (''INSTRUCTIONS:\<newline>'' @ instructions st))))"
proof (intro conjI impI)
  assume "GenerateContent parts \<in> set (snd (api_format e req))"
  then have mem: "GenerateContent parts \<in> set (snd (api_format_try e req))"
    by (simp only: snd_api_format)
  then have "truthy (body_instructions req)"
    by (auto simp: server_log split: if_splits)
  then obtain i where i: "body_instructions req = Some i"
      "template (body_instructions req) = i"
    using truthy_Some by blast
  from mem i
  show "\<exists>i p. body_instructions req = Some i
         \<and> parts = [TextPart (''INSTRUCTIONS:\<newline>'' @ i), p]
         \<and> content_part p \<and> \<not> content_part (TextPart (''INSTRUCTIONS:\<newline>'' @ i))"
    by (auto simp: server_log startsWith_def split: if_splits option.splits sum.splits)
next
  assume "GenerateContent parts' \<in> set (snd (handleFormat e st))"
  then show "\<exists>p. parts' = [TextPart (''INSTRUCTIONS:\<newline>'' @ instructions st), p]
         \<and> content_part p
         \<and> \<not> content_part (TextPart (''INSTRUCTIONS:\<newline>'' @ instructions st))"
    by (auto simp: snd_handleFormat client_try_log startsWith_def
        split: if_splits option.splits sum.splits)
qed

theorem payload_is_instructions_then_one_content_part_witness:
  "GenerateContent [TextPart ''INSTRUCTIONS:\<newline>make it uppercase'',
                    TextPart ''DOCUMENT CONTENT:\<newline>hello world'']
     \<in> set (snd (api_format stub (pasted_request (Some ''make it uppercase'') (Some ''hello world''))))
   \<and> GenerateContent [TextPart ''INSTRUCTIONS:\<newline>make it uppercase'',
                    TextPart ''DOCUMENT CONTENT:\<newline>hello world'']
     \<in> set (snd (handleFormat stub (idle ''hello world'' ''make it uppercase'' None)))
   \<and> (\<exists>p. [TextPart ''INSTRUCTIONS:\<newline>make it uppercase'',
             TextPart ''DOCUMENT CONTENT:\<newline>hello world'']
            = [TextPart (''INSTRUCTIONS:\<newline>''
                         @ instructions (idle ''hello world'' ''make it uppercase'' None)), p]
          \<and> content_part p)"
  using scenario_A_server scenario_A_client
    payload_is_instructions_then_one_content_part
      [of "[TextPart ''INSTRUCTIONS:\<newline>make it uppercase'',
            TextPart ''DOCUMENT CONTENT:\<newline>hello world'']"
          stub "pasted_request (Some ''make it uppercase'') (Some ''hello world'')"
          "[TextPart ''INSTRUCTIONS:\<newline>make it uppercase'',
            TextPart ''DOCUMENT CONTENT:\<newline>hello world'']"
          "idle ''hello world'' ''make it uppercase'' None"]
  by blast

text \<open>
  Claim C2, as amended. A file whose type is outside the recognized set is refused
  with the unsupported-type error when instructions are present; when they are
  missing, the instructions guard comes first and the request is refused with the
  missing-instructions error. In both cases no collaborator is called. (The claim
  as stated wants the unsupported-type error whether or not instructions are
  present.)
\<close>

theorem unsupported_type_after_instructions_guard:
  "(req_file req = Some f \<and> \<not> recognized (mimetype f) \<longrightarrow>
      api_format e req =
        (if truthy (body_instructions req) then UnsupportedMediaTypeError
         else MissingInstructionsError, []))
   \<and> (file st = Some f' \<and> \<not> recognized (mimetype f') \<longrightarrow>
      handleFormat e st =
        (if trim (instructions st) = [] then st\<lparr>error := Some client_MissingInstructionsError\<rparr>
         else client_failed st client_UnsupportedMediaTypeError, []))"
  using server_unsupported [of req f e] server_missing_instructions [of req e]
    client_unsupported [of st f' e] client_missing_instructions [of st e]
  by auto

text \<open>
  The claim C2 as stated fails: a ZIP upload without instructions is answered
  "Missing formatting instructions.", not with the unsupported-type error.
\<close>

theorem unsupported_type_without_instructions_counterexample:
  "req_file (upload_request None zip_file) = Some zip_file
   \<and> \<not> recognized (mimetype zip_file)
   \<and> fst (api_format stub (upload_request None zip_file)) = MissingInstructionsError
   \<and> fst (api_format stub (upload_request None zip_file)) \<noteq> UnsupportedMediaTypeError"
  by (simp add: run_defs recognized_def inline_binary_def MissingInstructionsError_def
      UnsupportedMediaTypeError_def)

lemma zip_not_recognized: "\<not> recognized (mimetype zip_file)"
  by (simp add: recognized_def inline_binary_def startsWith_def docx_mime_def zip_file_def)

theorem unsupported_type_after_instructions_guard_witness:
  "req_file (upload_request (Some ''extract text'') zip_file) = Some zip_file
   \<and> \<not> recognized (mimetype zip_file)
   \<and> api_format stub (upload_request (Some ''extract text'') zip_file)
       = (UnsupportedMediaTypeError, [])
   \<and> file (idle [] ''extract text'' (Some zip_file)) = Some zip_file
   \<and> handleFormat stub (idle [] ''extract text'' (Some zip_file))
       = (client_failed (idle [] ''extract text'' (Some zip_file)) client_UnsupportedMediaTypeError, [])"
proof -
  have h1: "req_file (upload_request (Some ''extract text'') zip_file) = Some zip_file"
    by (simp add: upload_request_def)
  have h2: "file (idle [] ''extract text'' (Some zip_file)) = Some zip_file"
    by (simp add: idle_def)
  have i1: "truthy (body_instructions (upload_request (Some ''extract text'') zip_file))"
    by (simp add: upload_request_def truthy_def)
  have i2: "trim (instructions (idle [] ''extract text'' (Some zip_file))) \<noteq> []"
    by (simp add: idle_def trim_def is_space_def)
  from h1 h2 i1 i2 zip_not_recognized
    unsupported_type_after_instructions_guard
      [of "upload_request (Some ''extract text'') zip_file" zip_file stub
          "idle [] ''extract text'' (Some zip_file)" zip_file]
  show ?thesis by simp
qed

text \<open>
  Claim C3, as amended. When a request carries both a file and pasted text, the
  server does not reject it: the file takes precedence and the pasted text is
  ignored, so the answer and the calls are those of the same request with any other
  pasted text, or none. (The claim as stated wants the core to detect the two
  artifacts and reject the request; no handler has such a check, and only the user
  interface keeps the two inputs apart.)
\<close>

theorem file_takes_precedence_over_pasted_text:
  assumes "req_file req = Some f"
  shows "api_format e (req\<lparr>body_content := t\<rparr>) = api_format e req"
  using assms by (simp add: api_format_def api_format_try_def)

text \<open>
  The claim C3 as stated fails: a plain-text file sent together with the pasted
  text \<^verbatim>\<open>hello world\<close> is accepted, and the model is given the file's text only.
\<close>

theorem file_and_pasted_text_counterexample:
  "req_file ((upload_request (Some ''make it uppercase'') txt_file)
               \<lparr>body_content := Some ''hello world''\<rparr>) = Some txt_file
   \<and> body_content ((upload_request (Some ''make it uppercase'') txt_file)
               \<lparr>body_content := Some ''hello world''\<rparr>) = Some ''hello world''
   \<and> api_format stub ((upload_request (Some ''make it uppercase'') txt_file)
               \<lparr>body_content := Some ''hello world''\<rparr>)
     = (FormattedResult ''HELLO WORLD'',
        [GenerateContent [TextPart ''INSTRUCTIONS:\<newline>make it uppercase'',
                          TextPart ''DOCUMENT CONTENT:\<newline>hi'']])"
  by (simp add: run_defs FormattedResult_def latin1_def char_of_def bit_Suc_0_iff)

theorem file_takes_precedence_over_pasted_text_witness:
  "req_file (upload_request (Some ''make it uppercase'') txt_file) = Some txt_file
   \<and> api_format stub ((upload_request (Some ''make it uppercase'') txt_file)
                         \<lparr>body_content := Some ''hello world''\<rparr>)
     = api_format stub (upload_request (Some ''make it uppercase'') txt_file)"
proof -
  have h: "req_file (upload_request (Some ''make it uppercase'') txt_file) = Some txt_file"
    by (simp add: upload_request_def)
  from h file_takes_precedence_over_pasted_text [OF h, of stub "Some ''hello world''"]
  show ?thesis by simp
qed

text \<open>
  The client's handler ignores the pasted text of a state that holds a file in the
  same way, and the handlers of the user interface never leave both inputs set.
\<close>

lemma client_file_takes_precedence:
  assumes "file st = Some f"
  shows "snd (handleFormat e (st\<lparr>textInput := t\<rparr>)) = snd (handleFormat e st)"
  using assms
  by (simp add: snd_handleFormat client_try_log cong: if_cong option.case_cong sum.case_cong)

lemma ui_keeps_one_artifact:
  "file (onTextChange v st) = None"
  "textInput (handleFileChange f st) = []"
  "textInput (clearFile st) = textInput st"
  by (simp_all add: onTextChange_def handleFileChange_def clearFile_def)










text \<open>
  What the comma is about: for a type such as \<^verbatim>\<open>image/a,b\<close> the server still sends
  the base64 of the byte, the client the piece of the data URL between its first two
  commas.
\<close>

lemma comma_in_type_example:
  "model_requests (snd (api_format stub
      (upload_request (Some ''extract text'') \<lparr>mimetype = ''image/a,b'', buffer = [0x41]\<rparr>)))
     = [[TextPart ''INSTRUCTIONS:\<newline>extract text'', InlinePart ''image/a,b'' (Some ''QQ=='')]]
   \<and> model_requests (snd (handleFormat stub
      (idle [] ''extract text'' (Some \<lparr>mimetype = ''image/a,b'', buffer = [0x41]\<rparr>))))
     = [[TextPart ''INSTRUCTIONS:\<newline>extract text'', InlinePart ''image/a,b'' (Some ''b;base64'')]]"
  by (simp add: run_defs trim_def is_space_def readAsDataURL_def fileToBase64_def at_def
      b64_def b64chars_def)

text \<open>
  Claim C5, as amended. Whatever the document, a request whose instructions are
  absent or the empty string is refused with the missing-instructions error before
  any extraction and before any model call, on the server and in the client; the
  client also refuses instructions of white space only, provided a document is
  there (it looks for the document first). (The claim as stated says "absent or
  blank" of the whole pipeline; the server's guard is \<^verbatim>\<open>!instructions\<close> and lets
  instructions of white space only pass.)
\<close>

theorem missing_instructions_before_any_call:
  "(\<not> truthy (body_instructions req) \<longrightarrow>
      api_format e req = (MissingInstructionsError, []))
   \<and> (trim (instructions st) = [] \<and> (file st \<noteq> None \<or> trim (textInput st) \<noteq> []) \<longrightarrow>
      handleFormat e st = (st\<lparr>error := Some client_MissingInstructionsError\<rparr>, []))"
  using server_missing_instructions [of req e] client_missing_instructions [of st e]
  by blast

text \<open>
  The claim C5 as stated fails: instructions of three spaces are blank, and the
  server sends them to the model with the pasted text.
\<close>

theorem blank_instructions_counterexample:
  "trim ''   '' = []
   \<and> api_format stub (pasted_request (Some ''   '') (Some ''hello world''))
     = (FormattedResult ''HELLO WORLD'',
        [GenerateContent [TextPart ''INSTRUCTIONS:\<newline>   '',
                          TextPart ''DOCUMENT CONTENT:\<newline>hello world'']])
   \<and> fst (api_format stub (pasted_request (Some ''   '') (Some ''hello world'')))
     \<noteq> MissingInstructionsError"
  by (simp add: run_defs FormattedResult_def MissingInstructionsError_def trim_def is_space_def)

theorem missing_instructions_before_any_call_witness:
  "\<not> truthy (body_instructions (upload_request (Some []) docx_file))
   \<and> api_format stub (upload_request (Some []) docx_file) = (MissingInstructionsError, [])
   \<and> trim (instructions (idle [] ''  '' (Some docx_file))) = []
   \<and> file (idle [] ''  '' (Some docx_file)) \<noteq> None
   \<and> handleFormat stub (idle [] ''  '' (Some docx_file))
       = ((idle [] ''  '' (Some docx_file))\<lparr>error := Some client_MissingInstructionsError\<rparr>, [])"
proof -
  have h1: "\<not> truthy (body_instructions (upload_request (Some []) docx_file))"
    by (simp add: upload_request_def truthy_def)
  have h2: "trim (instructions (idle [] ''  '' (Some docx_file))) = []"
    by (simp add: idle_def trim_def is_space_def)
  have h3: "file (idle [] ''  '' (Some docx_file)) \<noteq> None"
    by (simp add: idle_def)
  from h1 h2 h3
    missing_instructions_before_any_call
      [of "upload_request (Some []) docx_file" stub "idle [] ''  '' (Some docx_file)"]
  show ?thesis by blast
qed

text \<open>
  Claim C6. With instructions present, a file whose type is outside the recognized
  set is answered with the unsupported-type error and the log of calls is empty:
  neither the extractor nor the model is contacted.
\<close>

theorem unsupported_type_contacts_nobody:
  assumes "truthy (body_instructions req)" and "req_file req = Some f"
    and "\<not> recognized (mimetype f)"
  shows "fst (api_format e req) = UnsupportedMediaTypeError \<and> snd (api_format e req) = []"
  using server_unsupported [OF assms] by simp

theorem unsupported_type_contacts_nobody_witness:
  "truthy (body_instructions (upload_request (Some ''extract text'') zip_file))
   \<and> req_file (upload_request (Some ''extract text'') zip_file) = Some zip_file
   \<and> \<not> recognized (mimetype zip_file)
   \<and> fst (api_format stub (upload_request (Some ''extract text'') zip_file)) = UnsupportedMediaTypeError
   \<and> snd (api_format stub (upload_request (Some ''extract text'') zip_file)) = []"
proof -
  have h1: "truthy (body_instructions (upload_request (Some ''extract text'') zip_file))"
    by (simp add: upload_request_def truthy_def)
  have h2: "req_file (upload_request (Some ''extract text'') zip_file) = Some zip_file"
    by (simp add: upload_request_def)
  from h1 h2 zip_not_recognized
    unsupported_type_contacts_nobody [OF h1 h2 zip_not_recognized, of stub]
  show ?thesis by simp
qed

subsection \<open>Server and client on the same input\<close>

lemma server_log_as_request:
  "snd (api_format e (as_request st)) =
     (if instructions st = [] then []
      else case file st of
        Some f \<Rightarrow>
          if inline_binary (mimetype f) then
            [GenerateContent [TextPart (''INSTRUCTIONS:\<newline>'' @ instructions st),
               InlinePart (mimetype f) (Some (toString_base64 (buffer f)))]]
          else if mimetype f = docx_mime then
            (case extractRawText e (buffer f) of
               Inl message \<Rightarrow> [ExtractRawText (buffer f)]
             | Inr v \<Rightarrow> [ExtractRawText (buffer f),
                 GenerateContent [TextPart (''INSTRUCTIONS:\<newline>'' @ instructions st),
                   TextPart (''DOCUMENT CONTENT:\<newline>'' @ v)]])
          else if mimetype f = ''text/plain'' then
            [GenerateContent [TextPart (''INSTRUCTIONS:\<newline>'' @ instructions st),
               TextPart (''DOCUMENT CONTENT:\<newline>'' @ buffer_toString_utf8 e (buffer f))]]
          else []
      | None \<Rightarrow>
          if textInput st \<noteq> [] then
            [GenerateContent [TextPart (''INSTRUCTIONS:\<newline>'' @ instructions st),
               TextPart (''DOCUMENT CONTENT:\<newline>'' @ textInput st)]]
          else [])"
  by (simp add: snd_api_format server_log as_request_def truthy_def template_def
      cong: if_cong option.case_cong sum.case_cong)

lemma same_input_as_request: "same_input (as_request st) st"
  by (simp add: same_input_def as_request_def)

lemma same_input_log:
  assumes "same_input req st"
  shows "snd (api_format e req) = snd (api_format e (as_request st))"
proof -
  from assms have f: "req_file req = file st"
    and i: "truthy (body_instructions req) = (instructions st \<noteq> [])"
      "truthy (body_instructions req) \<Longrightarrow> template (body_instructions req) = instructions st"
    and t: "truthy (body_content req) = (textInput st \<noteq> [])"
      "truthy (body_content req) \<Longrightarrow> template (body_content req) = textInput st"
    by (auto simp: same_input_def truthy_def template_def split: option.splits)
  show ?thesis
    unfolding server_log_as_request
    by (simp add: snd_api_format server_log f i t cong: if_cong option.case_cong sum.case_cong)
qed

lemma same_log_as_request:
  assumes "\<not> only_spaces (instructions st)" and "same_reading e st"
  shows "snd (api_format e (as_request st)) = snd (handleFormat e st)"
proof -
  have i: "(trim (instructions st) = []) = (instructions st = [])"
    using assms(1) by (rule not_only_spaces)
  show ?thesis
  proof (cases "file st")
    case None
    with assms(2) have "(trim (textInput st) = []) = (textInput st = [])"
      by (simp add: same_reading_def not_only_spaces)
    with None i show ?thesis
      by (simp add: server_log_as_request snd_handleFormat client_try_log)
  next
    case (Some f)
    from assms(2) Some
    have c: "inline_binary (mimetype f) \<Longrightarrow> fileToBase64 f = Some (toString_base64 (buffer f))"
      and t: "mimetype f = ''text/plain'' \<Longrightarrow>
                file_text e (buffer f) = buffer_toString_utf8 e (buffer f)"
      by (simp_all add: same_reading_def fileToBase64_no_comma)
    from Some i c t show ?thesis
      by (simp add: server_log_as_request snd_handleFormat client_try_log)
  qed
qed

text \<open>
  Claim C7, as amended. On the same input the server and the client make the same
  calls in the same order, hence take the same decision to send a request or not,
  and send the same parts, provided that the instructions are not white space
  only, that pasted text (when there is no file) is not white space only, that the
  type of a PDF or image holds no comma, and that the two UTF-8 decoders agree on
  the bytes of a plain-text file. (The claim as stated wants this of every input.)
\<close>

theorem server_and_client_send_the_same_request:
  assumes "same_input req st" and "\<not> only_spaces (instructions st)" and "same_reading e st"
  shows "snd (api_format e req) = snd (handleFormat e st)
     \<and> model_requests (snd (api_format e req)) = model_requests (snd (handleFormat e st))"
  using same_input_log [OF assms(1), of e] same_log_as_request [OF assms(2,3)]
  by simp

text \<open>
  The claim C7 as stated fails: with instructions of three spaces and the pasted
  text \<^verbatim>\<open>hello world\<close>, the server sends a request to the model and the client
  sends none.
\<close>

theorem blank_instructions_split_server_and_client_counterexample:
  "same_input (pasted_request (Some ''   '') (Some ''hello world'')) (idle ''hello world'' ''   '' None)
   \<and> model_requests (snd (api_format stub (pasted_request (Some ''   '') (Some ''hello world''))))
     = [[TextPart ''INSTRUCTIONS:\<newline>   '', TextPart ''DOCUMENT CONTENT:\<newline>hello world'']]
   \<and> model_requests (snd (handleFormat stub (idle ''hello world'' ''   '' None))) = []"
  by (simp add: run_defs same_input_def trim_def is_space_def)

theorem server_and_client_send_the_same_request_witness:
  "same_input (upload_request (Some ''extract text'') png_file) (idle [] ''extract text'' (Some png_file))
   \<and> \<not> only_spaces (instructions (idle [] ''extract text'' (Some png_file)))
   \<and> same_reading stub (idle [] ''extract text'' (Some png_file))
   \<and> snd (api_format stub (upload_request (Some ''extract text'') png_file))
       = snd (handleFormat stub (idle [] ''extract text'' (Some png_file)))
   \<and> model_requests (snd (handleFormat stub (idle [] ''extract text'' (Some png_file))))
       = [[TextPart ''INSTRUCTIONS:\<newline>extract text'', InlinePart ''image/png'' (Some ''iVBORw=='')]]"
proof -
  have h1: "same_input (upload_request (Some ''extract text'') png_file)
              (idle [] ''extract text'' (Some png_file))"
    by (simp add: same_input_def upload_request_def idle_def)
  have h2: "\<not> only_spaces (instructions (idle [] ''extract text'' (Some png_file)))"
    by (simp add: only_spaces_def idle_def is_space_def)
  have h3: "same_reading stub (idle [] ''extract text'' (Some png_file))"
    by (simp add: same_reading_def idle_def png_file_def)
  have h4: "model_requests (snd (handleFormat stub (idle [] ''extract text'' (Some png_file))))
       = [[TextPart ''INSTRUCTIONS:\<newline>extract text'', InlinePart ''image/png'' (Some ''iVBORw=='')]]"
    using png_dataURL png_type
    by (simp add: handleFormat_def handleFormat_try_def ask_gemini_def stub_def truthy_def
        template_def startsWith_def idle_def Let_def trim_def is_space_def)
  from h1 h2 h3 h4 server_and_client_send_the_same_request [OF h1 h2 h3]
  show ?thesis by simp
qed

text \<open>Pasted text of white space only divides them in the same way.\<close>

lemma blank_text_example:
  "model_requests (snd (api_format stub (as_request (idle ''   '' ''make it uppercase'' None))))
     = [[TextPart ''INSTRUCTIONS:\<newline>make it uppercase'', TextPart ''DOCUMENT CONTENT:\<newline>   '']]
   \<and> model_requests (snd (handleFormat stub (idle ''   '' ''make it uppercase'' None))) = []"
  by (simp add: run_defs as_request_def trim_def is_space_def)

text \<open>
  Claim C8. When the extractor has been called on a DOCX file and returns the empty
  string, the request goes on: the model is called with the instructions part and
  the text part that holds the document label alone, and the answer depends on the
  model's reply only.
\<close>

theorem empty_extraction_is_content:
  assumes "req_file req = Some f" and "mimetype f = docx_mime"
    and "ExtractRawText (buffer f) \<in> set (snd (api_format e req))"
    and "extractRawText e (buffer f) = Inr []"
  shows "\<exists>i. body_instructions req = Some i
     \<and> snd (api_format e req) =
         [ExtractRawText (buffer f),
          GenerateContent [TextPart (''INSTRUCTIONS:\<newline>'' @ i),
                           TextPart ''DOCUMENT CONTENT:\<newline>'']]
     \<and> fst (api_format e req) =
         (case generateContent e [TextPart (''INSTRUCTIONS:\<newline>'' @ i),
                                  TextPart ''DOCUMENT CONTENT:\<newline>''] of
            Inl message \<Rightarrow> InternalProcessingError message
          | Inr None \<Rightarrow> EmptyModelResponseError
          | Inr (Some t) \<Rightarrow> if t = [] then EmptyModelResponseError else FormattedResult t)"
proof -
  from assms(3) have "truthy (body_instructions req)"
    by (auto simp: snd_api_format server_log split: if_splits)
  then obtain i where i: "body_instructions req = Some i" "i \<noteq> []"
      "template (body_instructions req) = i"
    using truthy_Some by blast
  have nb: "\<not> inline_binary docx_mime"
    by (simp add: inline_binary_def docx_mime_def startsWith_def)
  let ?ps = "[TextPart (''INSTRUCTIONS:\<newline>'' @ i), TextPart ''DOCUMENT CONTENT:\<newline>'']"
  have log: "snd (api_format e req) = [ExtractRawText (buffer f), GenerateContent ?ps]"
    using assms(1,2,4) i nb by (simp add: snd_api_format server_log truthy_def)
  then have "GenerateContent ?ps \<in> set (snd (api_format_try e req))"
    by (simp add: snd_api_format)
  from server_outcome [OF this]
  have "fst (api_format e req) =
         (case generateContent e ?ps of
            Inl message \<Rightarrow> InternalProcessingError message
          | Inr None \<Rightarrow> EmptyModelResponseError
          | Inr (Some t) \<Rightarrow> if t = [] then EmptyModelResponseError else FormattedResult t)"
    by (simp add: fst_api_format EmptyModelResponseError_def truthy_def template_def
        split: sum.splits option.splits)
  with i(1) log show ?thesis by blast
qed

lemma scenario_C_log:
  "snd (api_format stub (upload_request (Some ''tidy up'') docx_file))
     = [ExtractRawText (buffer docx_file),
        GenerateContent [TextPart ''INSTRUCTIONS:\<newline>tidy up'', TextPart ''DOCUMENT CONTENT:\<newline>'']]"
  by (simp add: run_defs inline_binary_def)

theorem empty_extraction_is_content_witness:
  "req_file (upload_request (Some ''tidy up'') docx_file) = Some docx_file
   \<and> mimetype docx_file = docx_mime
   \<and> ExtractRawText (buffer docx_file)
       \<in> set (snd (api_format stub (upload_request (Some ''tidy up'') docx_file)))
   \<and> extractRawText stub (buffer docx_file) = Inr []
   \<and> snd (api_format stub (upload_request (Some ''tidy up'') docx_file))
       = [ExtractRawText (buffer docx_file),
          GenerateContent [TextPart ''INSTRUCTIONS:\<newline>tidy up'', TextPart ''DOCUMENT CONTENT:\<newline>'']]
   \<and> fst (api_format stub (upload_request (Some ''tidy up'') docx_file)) = FormattedResult ''HELLO WORLD''"
proof -
  have h1: "req_file (upload_request (Some ''tidy up'') docx_file) = Some docx_file"
    by (simp add: upload_request_def)
  have h2: "mimetype docx_file = docx_mime"
    by (simp add: docx_file_def)
  have h3: "ExtractRawText (buffer docx_file)
       \<in> set (snd (api_format stub (upload_request (Some ''tidy up'') docx_file)))"
    by (simp add: scenario_C_log)
  have h4: "extractRawText stub (buffer docx_file) = Inr []"
    by (simp add: stub_def)
  have i: "body_instructions (upload_request (Some ''tidy up'') docx_file) = Some ''tidy up''"
    by (simp add: upload_request_def)
  have g: "generateContent stub ps = Inr (Some ''HELLO WORLD'')" for ps
    by (simp add: stub_def)
  from empty_extraction_is_content [OF h1 h2 h3 h4] i g
  have "fst (api_format stub (upload_request (Some ''tidy up'') docx_file))
          = FormattedResult ''HELLO WORLD''"
    by auto
  with h1 h2 h3 h4 scenario_C_log show ?thesis by simp
qed

text \<open>
  Claim C9. Once the model has replied, the request succeeds exactly when the reply
  is a string that is not empty, and then the formatted content is that string,
  unchanged; a missing or empty text fails with the empty-response error. This
  holds of the server and of the client.
\<close>

theorem reply_is_passed_through_or_refused_as_empty:
  "(GenerateContent parts \<in> set (snd (api_format e req)) \<and> generateContent e parts = Inr r \<longrightarrow>
      fst (api_format e req) =
        (case r of
           None \<Rightarrow> EmptyModelResponseError
         | Some t \<Rightarrow> if t = [] then EmptyModelResponseError else FormattedResult t))
   \<and> (GenerateContent parts' \<in> set (snd (handleFormat e st)) \<and> generateContent e parts' = Inr r' \<longrightarrow>
      fst (handleFormat e st) =
        (case r' of
           None \<Rightarrow> client_failed st client_EmptyModelResponseError
         | Some t \<Rightarrow> if t = [] then client_failed st client_EmptyModelResponseError
                     else client_formatted st t))"
proof (intro conjI impI)
  assume a: "GenerateContent parts \<in> set (snd (api_format e req)) \<and> generateContent e parts = Inr r"
  then have "GenerateContent parts \<in> set (snd (api_format_try e req))"
    by (simp add: snd_api_format)
  from server_outcome [OF this] a
  show "fst (api_format e req) =
        (case r of
           None \<Rightarrow> EmptyModelResponseError
         | Some t \<Rightarrow> if t = [] then EmptyModelResponseError else FormattedResult t)"
    by (simp add: fst_api_format EmptyModelResponseError_def truthy_def template_def
        split: option.splits)
next
  assume a: "GenerateContent parts' \<in> set (snd (handleFormat e st)) \<and> generateContent e parts' = Inr r'"
  then have guards: "\<not> (trim (textInput st) = [] \<and> file st = None)" "trim (instructions st) \<noteq> []"
    and mem: "GenerateContent parts' \<in> set (snd (handleFormat_try e st))"
    by (auto simp: snd_handleFormat split: if_splits)
  from client_try_outcome [OF mem] a guards
  show "fst (handleFormat e st) =
        (case r' of
           None \<Rightarrow> client_failed st client_EmptyModelResponseError
         | Some t \<Rightarrow> if t = [] then client_failed st client_EmptyModelResponseError
                     else client_formatted st t)"
    by (auto simp: fst_handleFormat client_EmptyModelResponseError_def truthy_def template_def
        split: option.splits)
qed

theorem reply_is_passed_through_or_refused_as_empty_witness:
  "GenerateContent [TextPart ''INSTRUCTIONS:\<newline>make it uppercase'',
                    TextPart ''DOCUMENT CONTENT:\<newline>hello world'']
     \<in> set (snd (api_format stub (pasted_request (Some ''make it uppercase'') (Some ''hello world''))))
   \<and> generateContent stub [TextPart ''INSTRUCTIONS:\<newline>make it uppercase'',
                    TextPart ''DOCUMENT CONTENT:\<newline>hello world''] = Inr (Some ''HELLO WORLD'')
   \<and> fst (api_format stub (pasted_request (Some ''make it uppercase'') (Some ''hello world'')))
       = FormattedResult ''HELLO WORLD''
   \<and> GenerateContent [TextPart ''INSTRUCTIONS:\<newline>make it uppercase'',
                    TextPart ''DOCUMENT CONTENT:\<newline>hello world'']
     \<in> set (snd (handleFormat stub (idle ''hello world'' ''make it uppercase'' None)))
   \<and> fst (handleFormat stub (idle ''hello world'' ''make it uppercase'' None))
       = client_formatted (idle ''hello world'' ''make it uppercase'' None) ''HELLO WORLD''"
proof -
  let ?ps = "[TextPart ''INSTRUCTIONS:\<newline>make it uppercase'',
              TextPart ''DOCUMENT CONTENT:\<newline>hello world'']"
  have g: "generateContent stub ?ps = Inr (Some ''HELLO WORLD'')"
    by (simp add: stub_def)
  from scenario_A_server scenario_A_client g
    reply_is_passed_through_or_refused_as_empty [of ?ps stub
      "pasted_request (Some ''make it uppercase'') (Some ''hello world'')" "Some ''HELLO WORLD''"
      ?ps "idle ''hello world'' ''make it uppercase'' None" "Some ''HELLO WORLD''"]
  show ?thesis by simp
qed

text \<open>
  Claim C10, as amended. A request without a file whose pasted text is the empty
  string is treated exactly as one without pasted text, and the server refuses it
  without calling anybody: with the missing-content error when instructions are
  present, and with the missing-instructions error when they are not, since that
  guard comes first. (The claim as stated wants the missing-content error for
  every such request. Its contrast with an empty DOCX extraction, which is
  accepted, is claim C8.)
\<close>

theorem empty_pasted_text_is_no_text:
  assumes "req_file req = None" and "body_content req = Some []"
  shows "api_format e req = api_format e (req\<lparr>body_content := None\<rparr>)
     \<and> api_format e req =
         (if truthy (body_instructions req) then MissingContentError
          else MissingInstructionsError, [])"
  using assms
  by (simp add: api_format_def api_format_try_def truthy_def MissingContentError_def
      MissingInstructionsError_def)

text \<open>
  The claim C10 as stated fails: with no file, empty pasted text and no
  instructions the answer is "Missing formatting instructions.", not the
  missing-content error.
\<close>

theorem empty_text_without_instructions_counterexample:
  "req_file (pasted_request None (Some [])) = None
   \<and> body_content (pasted_request None (Some [])) = Some []
   \<and> fst (api_format stub (pasted_request None (Some []))) = MissingInstructionsError
   \<and> fst (api_format stub (pasted_request None (Some []))) \<noteq> MissingContentError"
  by (simp add: run_defs MissingInstructionsError_def MissingContentError_def)

theorem empty_pasted_text_is_no_text_witness:
  "req_file (pasted_request (Some ''make it uppercase'') (Some [])) = None
   \<and> body_content (pasted_request (Some ''make it uppercase'') (Some [])) = Some []
   \<and> api_format stub (pasted_request (Some ''make it uppercase'') (Some []))
       = api_format stub ((pasted_request (Some ''make it uppercase'') (Some []))\<lparr>body_content := None\<rparr>)
   \<and> api_format stub (pasted_request (Some ''make it uppercase'') (Some []))
       = (MissingContentError, [])"
proof -
  have h1: "req_file (pasted_request (Some ''make it uppercase'') (Some [])) = None"
    by (simp add: pasted_request_def)
  have h2: "body_content (pasted_request (Some ''make it uppercase'') (Some [])) = Some []"
    by (simp add: pasted_request_def)
  have h3: "truthy (body_instructions (pasted_request (Some ''make it uppercase'') (Some [])))"
    by (simp add: pasted_request_def truthy_def)
  note w = empty_pasted_text_is_no_text [OF h1 h2, of stub, unfolded if_P [OF h3]]
  from h1 h2 w show ?thesis by blast
qed

end
